theory Spec2Isabelle
  imports Main
begin

section \<open>The white noise texture generator (tools/gen_texture.py)\<close>

text \<open>
  The script draws a random field with NumPy, turns it into a Pillow image and saves it.
  The embedding follows the script line by line. The three libraries it calls (NumPy,
  Pillow, argparse) are modelled by what the script uses of them; each such definition
  says which library call it stands for.
\<close>

subsection \<open>Exceptions\<close>

datatype error = SystemExit | ValueError | TypeError | KeyError | OSError | UnicodeEncodeError

subsection \<open>File constants (lines 17 to 19)\<close>

definition IMAGE_WIDTH :: nat where
  "IMAGE_WIDTH = 128"

definition IMAGE_HEIGHT :: nat where
  "IMAGE_HEIGHT = 128"

definition IMAGE_MODE :: string where
  "IMAGE_MODE = ''RGB''"

subsection \<open>The random generator\<close>

text \<open>
  The random draws are an explicit input. A generator is a sequence of raw draws
  (\<open>source\<close>) and the number of draws consumed so far (\<open>pos\<close>).
\<close>

record rng =
  source :: "nat \<Rightarrow> nat"
  pos :: nat

text \<open>
  One value of \<open>Generator.integers(low, high)\<close>: an integer from \<open>low\<close> (inclusive) to
  \<open>high\<close> (exclusive), chosen by one raw draw. Every value of the half-open interval is
  chosen by some raw draw and no other value is (lemma \<open>draw_image\<close>); the way NumPy's
  bit generator reaches the interval is not modelled.
\<close>

definition draw :: "int \<Rightarrow> int \<Rightarrow> nat \<Rightarrow> int" where
  "draw low high r = low + int (r mod nat (high - low))"

subsection \<open>Arrays\<close>

text \<open>
  A NumPy array is its shape and its elements in C order (the last index runs fastest).
  The script only has arrays of two and of three dimensions. The elements are NumPy's
  64-bit integers, modelled as \<open>int\<close>: every value the script computes lies between
  \<open>-24\<close> and \<open>278\<close> (lemma \<open>sum_bounds\<close>). The conversion to \<open>uint8\<close>, which wraps, is
  written out in \<open>astype_uint8\<close>.
\<close>

record array2 =
  a2_h :: nat
  a2_w :: nat
  a2_data :: "int list"

record array3 =
  a3_h :: nat
  a3_w :: nat
  a3_c :: nat
  a3_data :: "int list"

text \<open>\<open>a[i, j, c]\<close> for indices that are not negative; out of range is an IndexError.\<close>

definition a3_at :: "array3 \<Rightarrow> nat \<Rightarrow> nat \<Rightarrow> nat \<Rightarrow> int option" where
  "a3_at a i j c =
     (if i < a3_h a \<and> j < a3_w a \<and> c < a3_c a
      then Some (a3_data a ! ((i * a3_w a + j) * a3_c a + c))
      else None)"

text \<open>
  \<open>rng.integers(low, high, size=(h, w))\<close> and \<open>size=(h, w, d)\<close>: one draw for each
  element, in C order; \<open>low >= high\<close> is a ValueError. The generator moves on by the
  number of elements.
\<close>

fun integers2 :: "int \<Rightarrow> int \<Rightarrow> nat \<times> nat \<Rightarrow> rng \<Rightarrow> error + (array2 \<times> rng)" where
  "integers2 low high (h, w) g =
     (if high \<le> low then Inl ValueError
      else Inr (\<lparr>a2_h = h, a2_w = w,
                 a2_data = map (\<lambda>k. draw low high (source g (pos g + k))) [0..<h * w]\<rparr>,
                g\<lparr>pos := pos g + h * w\<rparr>))"

fun integers3 ::
  "int \<Rightarrow> int \<Rightarrow> nat \<times> nat \<times> nat \<Rightarrow> rng \<Rightarrow> error + (array3 \<times> rng)" where
  "integers3 low high (h, w, d) g =
     (if high \<le> low then Inl ValueError
      else Inr (\<lparr>a3_h = h, a3_w = w, a3_c = d,
                 a3_data = map (\<lambda>k. draw low high (source g (pos g + k))) [0..<h * w * d]\<rparr>,
                g\<lparr>pos := pos g + h * w * d\<rparr>))"

text \<open>
  \<open>np.stack(arrays, axis=2)\<close> of two-dimensional arrays: the new axis is the last one, so
  element \<open>[i, j, c]\<close> of the result is element \<open>[i, j]\<close> of the \<open>c\<close>-th array. An empty
  list, or arrays of different shapes, are a ValueError.
\<close>

definition stack_axis2 :: "array2 list \<Rightarrow> error + array3" where
  "stack_axis2 arrays =
     (case arrays of
        [] \<Rightarrow> Inl ValueError
      | a # rest \<Rightarrow>
          if list_all (\<lambda>b. a2_h b = a2_h a \<and> a2_w b = a2_w a) rest
          then Inr \<lparr>a3_h = a2_h a, a3_w = a2_w a, a3_c = length arrays,
                    a3_data = map (\<lambda>k. a2_data (arrays ! (k mod length arrays)) ! (k div length arrays))
                                  [0..<a2_h a * a2_w a * length arrays]\<rparr>
          else Inl ValueError)"

text \<open>
  \<open>a + b\<close> for two arrays of the same shape, element by element. NumPy would try to
  broadcast two different shapes; the script never adds such arrays, and the model
  reports the ValueError of shapes that cannot be broadcast for all of them.
\<close>

definition add3 :: "array3 \<Rightarrow> array3 \<Rightarrow> error + array3" where
  "add3 a b =
     (if a3_h a = a3_h b \<and> a3_w a = a3_w b \<and> a3_c a = a3_c b
      then Inr (a\<lparr>a3_data := map2 (+) (a3_data a) (a3_data b)\<rparr>)
      else Inl ValueError)"

text \<open>\<open>np.clip(a, a_min, a_max)\<close> is \<open>minimum(a_max, maximum(a, a_min))\<close>.\<close>

definition clip :: "array3 \<Rightarrow> int \<Rightarrow> int \<Rightarrow> array3" where
  "clip a a_min a_max = a\<lparr>a3_data := map (\<lambda>x. min a_max (max x a_min)) (a3_data a)\<rparr>"

text \<open>\<open>a.astype(np.uint8)\<close> keeps the low eight bits of each element.\<close>

definition astype_uint8 :: "array3 \<Rightarrow> array3" where
  "astype_uint8 a = a\<lparr>a3_data := map (\<lambda>x. x mod 256) (a3_data a)\<rparr>"

subsection \<open>Images\<close>

text \<open>
  A Pillow image: its mode, its size as (width, height), and its bytes row by row.
  \<open>Image.fromarray(a, mode='RGB')\<close> takes an array of shape (height, width, 3); for any
  other request the model raises Pillow's TypeError (the script makes none).
\<close>

record image =
  im_mode :: string
  im_size :: "nat \<times> nat"
  im_bytes :: "int list"

definition fromarray :: "array3 \<Rightarrow> string \<Rightarrow> error + image" where
  "fromarray a mode =
     (if mode = ''RGB'' \<and> a3_c a = 3
      then Inr \<lparr>im_mode = mode, im_size = (a3_w a, a3_h a), im_bytes = a3_data a\<rparr>
      else Inl TypeError)"

subsection \<open>generate_white_noise (lines 22 to 46)\<close>

definition CHANNEL_NOISE :: int where
  "CHANNEL_NOISE = 24"

text \<open>Line 36: the base field.\<close>

definition base_noise :: "nat \<Rightarrow> nat \<Rightarrow> rng \<Rightarrow> error + (array2 \<times> rng)" where
  "base_noise width height g = integers2 0 256 (height, width) g"

text \<open>Line 43: the noise of the channels, drawn after the base field.\<close>

definition channel_noise :: "nat \<Rightarrow> nat \<Rightarrow> rng \<Rightarrow> error + (array3 \<times> rng)" where
  "channel_noise width height g =
     integers3 (- CHANNEL_NOISE) CHANNEL_NOISE (height, width, 3) g"

text \<open>Lines 36 to 44: the value of \<open>img_array\<close> when line 44 has run.\<close>

definition img_array :: "nat \<Rightarrow> nat \<Rightarrow> rng \<Rightarrow> error + array3" where
  "img_array width height g =
     (case base_noise width height g of
        Inl e \<Rightarrow> Inl e
      | Inr (b, g1) \<Rightarrow>
          (case stack_axis2 [b, b, b] of
             Inl e \<Rightarrow> Inl e
           | Inr stacked \<Rightarrow>
               (case channel_noise width height g1 of
                  Inl e \<Rightarrow> Inl e
                | Inr (n, g2) \<Rightarrow>
                    (case add3 stacked n of
                       Inl e \<Rightarrow> Inl e
                     | Inr s \<Rightarrow> Inr (astype_uint8 (clip s 0 255))))))"

definition generate_white_noise :: "nat \<Rightarrow> nat \<Rightarrow> rng \<Rightarrow> error + image" where
  "generate_white_noise width height g =
     (case img_array width height g of
        Inl e \<Rightarrow> Inl e
      | Inr a \<Rightarrow> fromarray a IMAGE_MODE)"

subsection \<open>The command line, the disk and main (lines 49 to 66)\<close>

text \<open>
  A string of the command line, as argparse reads it when it stands before any \<open>--\<close>:
  a positional argument, an option string (\<open>-h\<close>, \<open>--help\<close>, or one the parser does not
  know), or the separator \<open>--\<close> itself. argparse removes the first \<open>--\<close> and reads every
  string after it as positional, whatever it looks like (\<open>drop_separator\<close>).
\<close>

datatype cli_arg = Positional string | OptionString string | Separator

fun as_positional :: "cli_arg \<Rightarrow> cli_arg" where
  "as_positional (Positional s) = Positional s"
| "as_positional (OptionString s) = Positional s"
| "as_positional Separator = Positional ''--''"

fun drop_separator :: "cli_arg list \<Rightarrow> cli_arg list" where
  "drop_separator [] = []"
| "drop_separator (Separator # rest) = map as_positional rest"
| "drop_separator (a # rest) = a # drop_separator rest"

text \<open>
  The parser of the script has one positional argument, \<open>output\<close>, and the help option
  argparse adds. \<open>parse_args\<close> returns only when what is left after the separator is
  exactly one positional argument: the help option prints the help and exits, everything
  else is a usage error and exits. The exit status and argparse's own messages are not
  modelled.
\<close>

fun one_positional :: "cli_arg list \<Rightarrow> error + string" where
  "one_positional [Positional output] = Inr output"
| "one_positional argv = Inl SystemExit"

definition parse_args :: "cli_arg list \<Rightarrow> error + string" where
  "parse_args argv = one_positional (drop_separator argv)"

text \<open>What a file holds: the encoding of an image in a format (the bytes are Pillow's).\<close>

datatype disk_file = Encoded string image

text \<open>
  The world of a run. A path names a file (\<open>resolve\<close>): two paths that name the same
  file, such as a symbolic link and its target, or \<open>a.png\<close> and \<open>./a.png\<close>, resolve to
  the same file, and a path that names no file yet resolves to the file that opening it
  creates. The disk is the content of its files (\<open>files\<close>); directories are not modelled.
  The world also says which paths can be opened for writing, which formats the installed
  Pillow can save, which texts the encoding of standard output can encode, and it keeps
  the lines the script has printed.
\<close>

type_synonym file_id = nat

record world =
  resolve :: "string \<Rightarrow> file_id"
  files :: "file_id \<Rightarrow> disk_file option"
  can_open :: "string \<Rightarrow> bool"
  save_formats :: "string \<Rightarrow> bool"
  can_print :: "string \<Rightarrow> bool"
  printed :: "string list"

text \<open>
  \<open>np.random.default_rng()\<close> seeds a new generator with fresh entropy of the operating
  system. The entropy is an input of the run, not a part of the world a run leaves.
\<close>

definition default_rng :: "(nat \<Rightarrow> nat) \<Rightarrow> rng" where
  "default_rng entropy = \<lparr>source = entropy, pos = 0\<rparr>"

text \<open>
  \<open>image.save(fp, format=fmt)\<close> with the format given: Pillow looks the format up (a
  KeyError when it has no encoder for it), opens the path for writing (an OSError when
  it cannot) and writes the encoding to the file the path names. The extension of the
  path is only read when no format is given. A failure while writing to the opened file
  is not modelled; it touches no file but the one \<open>fp\<close> names either.
\<close>

definition save :: "image \<Rightarrow> string \<Rightarrow> string \<Rightarrow> world \<Rightarrow> error + world" where
  "save im fp fmt w =
     (if \<not> save_formats w fmt then Inl KeyError
      else if \<not> can_open w fp then Inl OSError
      else Inr (w\<lparr>files := (files w)(resolve w fp \<mapsto> Encoded fmt im)\<rparr>))"

text \<open>Python's \<open>str\<close> of a natural number, for the f-string of line 61.\<close>

function str_nat :: "nat \<Rightarrow> string" where
  "str_nat n =
     (if n < 10 then [''0123456789'' ! n]
      else str_nat (n div 10) @ [''0123456789'' ! (n mod 10)])"
  by pat_completeness auto
termination
  by (relation "measure id") auto

declare str_nat.simps [simp del]

text \<open>
  \<open>print(s)\<close> encodes the line for standard output and raises a UnicodeEncodeError,
  printing nothing, when the encoding cannot encode it.
\<close>

definition print :: "string \<Rightarrow> world \<Rightarrow> error + world" where
  "print s w =
     (if can_print w s then Inr (w\<lparr>printed := printed w @ [s]\<rparr>)
      else Inl UnicodeEncodeError)"

text \<open>
  main returns the exception that ended the run (\<open>None\<close> when it returned normally) and
  the world it leaves.
\<close>

definition main :: "cli_arg list \<Rightarrow> (nat \<Rightarrow> nat) \<Rightarrow> world \<Rightarrow> error option \<times> world" where
  "main argv entropy w =
     (case parse_args argv of
        Inl e \<Rightarrow> (Some e, w)
      | Inr output \<Rightarrow>
          (case print (''Generating '' @ str_nat IMAGE_WIDTH @ ''x'' @ str_nat IMAGE_HEIGHT
                       @ '' white noise image...'') w of
             Inl e \<Rightarrow> (Some e, w)
           | Inr w1 \<Rightarrow>
               (case generate_white_noise IMAGE_WIDTH IMAGE_HEIGHT (default_rng entropy) of
                  Inl e \<Rightarrow> (Some e, w1)
                | Inr im \<Rightarrow>
                    (case save im output ''PNG'' w1 of
                       Inl e \<Rightarrow> (Some e, w1)
                     | Inr w2 \<Rightarrow>
                         (case print (''Image saved to: '' @ output) w2 of
                            Inl e \<Rightarrow> (Some e, w2)
                          | Inr w3 \<Rightarrow> (None, w3))))))"

subsection \<open>Definitions used to state the properties\<close>

text \<open>
  Element \<open>k\<close> of the flat buffer of \<open>img_array\<close>, read off lines 36 to 44: the base
  draw of its pixel (\<open>k div 3\<close>) plus its own channel draw, clipped and converted.
  Lemma \<open>img_array_eq\<close> proves that the array of the code has these elements.
\<close>

definition pixel_value :: "nat \<Rightarrow> nat \<Rightarrow> rng \<Rightarrow> nat \<Rightarrow> int" where
  "pixel_value w h g k =
     min 255 (max (draw 0 256 (source g (pos g + k div 3))
                   + draw (- 24) 24 (source g (pos g + h * w + k))) 0)"

text \<open>
  The five steps as the specification words them, for the pixel in row \<open>i\<close> and column
  \<open>j\<close> and its channel \<open>c\<close>: (a) a base grayscale field of shape (height, width),
  (b) the same field in each of the three channels, (c) a secondary noise value of its
  own for each channel of each pixel, (d) clamping to 0..255. The base field takes the
  first \<open>height * width\<close> draws and the secondary noise the draws after them.
\<close>

definition spec_base_field :: "nat \<Rightarrow> nat \<Rightarrow> rng \<Rightarrow> nat \<Rightarrow> nat \<Rightarrow> int" where
  "spec_base_field width height g i j = draw 0 256 (source g (pos g + (i * width + j)))"

definition spec_replicated :: "nat \<Rightarrow> nat \<Rightarrow> rng \<Rightarrow> nat \<Rightarrow> nat \<Rightarrow> nat \<Rightarrow> int" where
  "spec_replicated width height g i j c = spec_base_field width height g i j"

definition spec_secondary_noise :: "nat \<Rightarrow> nat \<Rightarrow> rng \<Rightarrow> nat \<Rightarrow> nat \<Rightarrow> nat \<Rightarrow> int" where
  "spec_secondary_noise width height g i j c =
     draw (- 24) 24 (source g (pos g + height * width + ((i * width + j) * 3 + c)))"

definition spec_clamp :: "int \<Rightarrow> int" where
  "spec_clamp x = (if x < 0 then 0 else if 255 < x then 255 else x)"

definition spec_pixel :: "nat \<Rightarrow> nat \<Rightarrow> rng \<Rightarrow> nat \<Rightarrow> nat \<Rightarrow> nat \<Rightarrow> int" where
  "spec_pixel width height g i j c =
     spec_clamp (spec_replicated width height g i j c + spec_secondary_noise width height g i j c)"

text \<open>\<open>a[i, j]\<close> for indices that are not negative; out of range is an IndexError.\<close>

definition a2_at :: "array2 \<Rightarrow> nat \<Rightarrow> nat \<Rightarrow> int option" where
  "a2_at a i j =
     (if i < a2_h a \<and> j < a2_w a then Some (a2_data a ! (i * a2_w a + j)) else None)"

text \<open>A generator all of whose raw draws are \<open>r\<close>.\<close>

definition constant_rng :: "nat \<Rightarrow> rng" where
  "constant_rng r = \<lparr>source = (\<lambda>k. r), pos = 0\<rparr>"


text \<open>Concrete generators and worlds, for the instances below.\<close>

definition example_entropy :: "nat \<Rightarrow> nat" where
  "example_entropy k = 100 * k + 250"

definition example_rng :: rng where
  "example_rng = \<lparr>source = (\<lambda>k. 100 * k + 250), pos = 0\<rparr>"

definition example_rng2 :: rng where
  "example_rng2 = \<lparr>source = (\<lambda>k. if k = 1 \<or> k = 7 then 100 * k + 250 else 0), pos = 0\<rparr>"

definition rng_base_10 :: rng where
  "rng_base_10 = \<lparr>source = (\<lambda>k. if k = 0 then 10 else 24), pos = 0\<rparr>"

definition rng_base_200 :: rng where
  "rng_base_200 = \<lparr>source = (\<lambda>k. if k = 0 then 200 else 24), pos = 0\<rparr>"

text \<open>
  In \<open>example_world\<close> the paths \<open>link.png\<close> and \<open>target.png\<close> name one file, every
  path but the empty one can be opened, Pillow saves PNG, and standard output encodes
  every text. \<open>ascii_world\<close> is the same world with a standard output that encodes ASCII
  only, and \<open>non_ascii_path\<close> is a path with the byte \<open>0xFF\<close>.
\<close>

definition example_world :: world where
  "example_world = \<lparr>resolve = (\<lambda>fp. if fp = ''link.png'' \<or> fp = ''target.png'' then 0
                                      else Suc (length fp)),
     files = Map.empty, can_open = (\<lambda>fp. fp \<noteq> []), save_formats = (\<lambda>fmt. fmt = ''PNG''),
     can_print = (\<lambda>s. True), printed = []\<rparr>"



section \<open>Lemmas\<close>

subsection \<open>Indices and draws\<close>

lemma nth_same3: "i < 3 \<Longrightarrow> [b, b, b] ! i = b"
  by (auto simp: less_Suc_eq numeral_3_eq_3)

lemma flat_index_less: "i < h \<Longrightarrow> j < w \<Longrightarrow> i * w + j < h * (w::nat)"
proof -
  assume a: "i < h" "j < w"
  have "i * w + j < Suc i * w" using a by simp
  also have "\<dots> \<le> h * w" using a by (intro mult_le_mono1) simp
  finally show ?thesis .
qed

lemma flat_index3_less: "i < h \<Longrightarrow> j < w \<Longrightarrow> c < 3 \<Longrightarrow> (i * w + j) * 3 + c < h * w * (3::nat)"
  using flat_index_less [of i h j w] by arith

lemma nth_map_upt0: "k < n \<Longrightarrow> map f [0..<n] ! k = f k"
  by simp

lemma map2_plus_upt:
  "map2 (+) (map f [0..<n]) (map g [0..<n]) = map (\<lambda>k. f k + g k :: int) [0..<n]"
  by (rule nth_equalityI) simp_all

lemma draw_bounds: "low < high \<Longrightarrow> low \<le> draw low high r \<and> draw low high r < high"
proof -
  assume lh: "low < high"
  then have "0 < nat (high - low)" by simp
  then have "r mod nat (high - low) < nat (high - low)" by (rule mod_less_divisor)
  then have "int (r mod nat (high - low)) < high - low" using lh by linarith
  then show ?thesis by (simp add: draw_def)
qed

lemma draw_image: "low < high \<Longrightarrow> range (draw low high) = {low..<high}"
proof (intro set_eqI iffI)
  fix x assume lh: "low < high" and "x \<in> range (draw low high)"
  then show "x \<in> {low..<high}" using draw_bounds [OF lh] by auto
next
  fix x assume lh: "low < high" and x: "x \<in> {low..<high}"
  have "nat (x - low) < nat (high - low)" using x by auto
  then have "draw low high (nat (x - low)) = x" using x by (simp add: draw_def)
  then show "x \<in> range (draw low high)" by (metis rangeI)
qed

lemma sum_bounds:
  "- 24 \<le> draw 0 256 r + draw (- 24) 24 r' \<and> draw 0 256 r + draw (- 24) 24 r' \<le> 278"
  using draw_bounds [of 0 256 r] draw_bounds [of "- 24" 24 r'] by simp

subsection \<open>The array and the image in closed form\<close>

lemma stack3_same:
  "stack_axis2 [b, b, b] =
     Inr \<lparr>a3_h = a2_h b, a3_w = a2_w b, a3_c = 3,
          a3_data = map (\<lambda>k. a2_data b ! (k div 3)) [0..<a2_h b * a2_w b * 3]\<rparr>"
proof -
  have e: "\<And>n::nat. n + (n + n) = n * 3" by simp
  show ?thesis by (simp add: stack_axis2_def nth_same3 e)
qed

lemma img_array_eq:
  "img_array w h g =
     Inr \<lparr>a3_h = h, a3_w = w, a3_c = 3, a3_data = map (pixel_value w h g) [0..<h * w * 3]\<rparr>"
proof -
  have d: "\<And>k. k < h * w * 3 \<Longrightarrow> k div 3 < h * w" by auto
  show ?thesis
    unfolding img_array_def base_noise_def channel_noise_def CHANNEL_NOISE_def
    by (simp add: stack3_same add3_def clip_def astype_uint8_def map2_plus_upt d
        pixel_value_def [abs_def] cong: map_cong)
qed

lemma pixel_value_range: "0 \<le> pixel_value w h g k \<and> pixel_value w h g k \<le> 255"
  by (simp add: pixel_value_def)

lemma pixel_value_spec:
  "c < 3 \<Longrightarrow> pixel_value w h g ((i * w + j) * 3 + c) = spec_pixel w h g i j c"
proof -
  assume c: "c < 3"
  have d: "((i * w + j) * 3 + c) div 3 = i * w + j" using c by simp
  show ?thesis
    unfolding pixel_value_def d spec_pixel_def spec_clamp_def spec_replicated_def
      spec_base_field_def spec_secondary_noise_def
    by (simp add: min_def max_def)
qed

lemma generate_eq:
  "generate_white_noise w h g =
     Inr \<lparr>im_mode = ''RGB'', im_size = (w, h), im_bytes = map (pixel_value w h g) [0..<h * w * 3]\<rparr>"
  by (simp add: generate_white_noise_def img_array_eq fromarray_def IMAGE_MODE_def)

subsection \<open>Elements of the two drawn arrays\<close>

lemma draw_constant: "low \<le> x \<Longrightarrow> x < high \<Longrightarrow> draw low high (nat (x - low)) = x"
proof -
  assume x: "low \<le> x" "x < high"
  then have "nat (x - low) < nat (high - low)" by simp
  then show ?thesis using x by (simp add: draw_def)
qed

lemma base_noise_eq:
  "base_noise w h g =
     Inr (\<lparr>a2_h = h, a2_w = w,
           a2_data = map (\<lambda>k. draw 0 256 (source g (pos g + k))) [0..<h * w]\<rparr>,
          g\<lparr>pos := pos g + h * w\<rparr>)"
  by (simp add: base_noise_def)

lemma channel_noise_eq:
  "channel_noise w h g =
     Inr (\<lparr>a3_h = h, a3_w = w, a3_c = 3,
           a3_data = map (\<lambda>k. draw (- 24) 24 (source g (pos g + k))) [0..<h * w * 3]\<rparr>,
          g\<lparr>pos := pos g + h * w * 3\<rparr>)"
  by (simp add: channel_noise_def CHANNEL_NOISE_def)

lemma base_noise_at:
  "i < h \<Longrightarrow> j < w \<Longrightarrow> base_noise w h g = Inr (b, g1) \<Longrightarrow>
     a2_at b i j = Some (draw 0 256 (source g (pos g + (i * w + j))))"
  using flat_index_less [of i h j w] by (auto simp: base_noise_eq a2_at_def)

lemma channel_noise_at:
  "i < h \<Longrightarrow> j < w \<Longrightarrow> c < 3 \<Longrightarrow> channel_noise w h g = Inr (n, g2) \<Longrightarrow>
     a3_at n i j c = Some (draw (- 24) 24 (source g (pos g + ((i * w + j) * 3 + c))))"
proof -
  assume b: "i < h" "j < w" "c < 3" and n: "channel_noise w h g = Inr (n, g2)"
  have lt: "(i * w + j) * 3 + c < h * w * 3" using b by (rule flat_index3_less)
  have "n = \<lparr>a3_h = h, a3_w = w, a3_c = 3,
           a3_data = map (\<lambda>k. draw (- 24) 24 (source g (pos g + k))) [0..<h * w * 3]\<rparr>"
    using n by (simp add: channel_noise_eq)
  then show ?thesis using b lt
    by (simp only: a3_at_def array3.simps nth_map_upt0) simp
qed

lemma perturbed_at:
  "i < h \<Longrightarrow> j < w \<Longrightarrow> c < 3 \<Longrightarrow> base_noise w h g = Inr (b, g1) \<Longrightarrow>
   channel_noise w h g1 = Inr (n, g2) \<Longrightarrow>
     \<exists>stacked s bv nv. stack_axis2 [b, b, b] = Inr stacked \<and> add3 stacked n = Inr s
        \<and> a2_at b i j = Some bv \<and> a3_at n i j c = Some nv \<and> a3_at s i j c = Some (bv + nv)"
proof -
  assume r: "i < h" "j < w" "c < 3" and b: "base_noise w h g = Inr (b, g1)"
    and n: "channel_noise w h g1 = Inr (n, g2)"
  have lt: "(i * w + j) * 3 + c < h * w * 3" using r by (rule flat_index3_less)
  have lt2: "i * w + j < h * w" using r by (simp add: flat_index_less)
  have d: "((i * w + j) * 3 + c) div 3 = i * w + j" using r by simp
  have dk: "\<And>k. k < h * w * 3 \<Longrightarrow> k div 3 < h * w" by auto
  have bn: "b = \<lparr>a2_h = h, a2_w = w,
           a2_data = map (\<lambda>k. draw 0 256 (source g (pos g + k))) [0..<h * w]\<rparr>"
    using b by (simp add: base_noise_eq)
  have nn: "n = \<lparr>a3_h = h, a3_w = w, a3_c = 3,
           a3_data = map (\<lambda>k. draw (- 24) 24 (source g1 (pos g1 + k))) [0..<h * w * 3]\<rparr>"
    using n by (simp add: channel_noise_eq)
  have s: "add3 \<lparr>a3_h = h, a3_w = w, a3_c = 3,
                 a3_data = map (\<lambda>k. a2_data b ! (k div 3)) [0..<h * w * 3]\<rparr> n
       = Inr \<lparr>a3_h = h, a3_w = w, a3_c = 3,
              a3_data = map (\<lambda>k. draw 0 256 (source g (pos g + k div 3))
                                + draw (- 24) 24 (source g1 (pos g1 + k))) [0..<h * w * 3]\<rparr>"
    unfolding bn nn by (simp add: add3_def map2_plus_upt dk cong: map_cong)
  have st: "stack_axis2 [b, b, b] = Inr \<lparr>a3_h = h, a3_w = w, a3_c = 3,
                 a3_data = map (\<lambda>k. a2_data b ! (k div 3)) [0..<h * w * 3]\<rparr>"
    using stack3_same [of b] by (simp add: bn)
  have 1: "a2_at b i j = Some (draw 0 256 (source g (pos g + (i * w + j))))"
    using r(1,2) b by (rule base_noise_at)
  have 2: "a3_at n i j c = Some (draw (- 24) 24 (source g1 (pos g1 + ((i * w + j) * 3 + c))))"
    using r n by (rule channel_noise_at)
  have 3: "a3_at \<lparr>a3_h = h, a3_w = w, a3_c = 3,
              a3_data = map (\<lambda>k. draw 0 256 (source g (pos g + k div 3))
                                + draw (- 24) 24 (source g1 (pos g1 + k))) [0..<h * w * 3]\<rparr> i j c
         = Some (draw 0 256 (source g (pos g + (i * w + j)))
                 + draw (- 24) 24 (source g1 (pos g1 + ((i * w + j) * 3 + c))))"
    using r lt by (simp only: a3_at_def array3.simps nth_map_upt0 d) simp
  from st s 1 2 3 show ?thesis by blast
qed

subsection \<open>main in closed form\<close>

lemma str_nat_128: "str_nat 128 = ''128''"
  by (simp add: str_nat.simps)

lemma generating_line:
  "''Generating '' @ str_nat IMAGE_WIDTH @ ''x'' @ str_nat IMAGE_HEIGHT @ '' white noise image...''
     = ''Generating 128x128 white noise image...''"
  by (simp add: IMAGE_WIDTH_def IMAGE_HEIGHT_def str_nat_128)


lemma one_positional_Inl: "one_positional args = Inl e \<Longrightarrow> e = SystemExit"
  by (cases args rule: one_positional.cases) auto


lemma main_rejected: "parse_args argv = Inl e \<Longrightarrow> main argv entropy w = (Some SystemExit, w)"
  using one_positional_Inl [of "drop_separator argv" e] by (simp add: main_def parse_args_def)

lemma main_parsed:
  "parse_args argv = Inr output \<Longrightarrow>
   main argv entropy w =
     (if \<not> can_print w ''Generating 128x128 white noise image...'' then
        (Some UnicodeEncodeError, w)
      else if \<not> save_formats w ''PNG'' then
        (Some KeyError, w\<lparr>printed := printed w @ [''Generating 128x128 white noise image...'']\<rparr>)
      else if \<not> can_open w output then
        (Some OSError, w\<lparr>printed := printed w @ [''Generating 128x128 white noise image...'']\<rparr>)
      else if \<not> can_print w (''Image saved to: '' @ output) then
        (Some UnicodeEncodeError,
         w\<lparr>files := (files w)(resolve w output \<mapsto>
              Encoded ''PNG'' \<lparr>im_mode = ''RGB'', im_size = (IMAGE_WIDTH, IMAGE_HEIGHT),
                im_bytes = map (pixel_value IMAGE_WIDTH IMAGE_HEIGHT (default_rng entropy))
                               [0..<IMAGE_HEIGHT * IMAGE_WIDTH * 3]\<rparr>),
            printed := printed w @ [''Generating 128x128 white noise image...'']\<rparr>)
      else
        (None,
         w\<lparr>files := (files w)(resolve w output \<mapsto>
              Encoded ''PNG'' \<lparr>im_mode = ''RGB'', im_size = (IMAGE_WIDTH, IMAGE_HEIGHT),
                im_bytes = map (pixel_value IMAGE_WIDTH IMAGE_HEIGHT (default_rng entropy))
                               [0..<IMAGE_HEIGHT * IMAGE_WIDTH * 3]\<rparr>),
            printed := printed w @ [''Generating 128x128 white noise image...'',
                                    ''Image saved to: '' @ output]\<rparr>))"
  unfolding main_def generating_line by (simp add: generate_eq save_def print_def)

subsection \<open>Channels of one pixel\<close>

lemma same_base_gap:
  "- 24 \<le> n \<Longrightarrow> n \<le> 23 \<Longrightarrow> - 24 \<le> n' \<Longrightarrow> n' \<le> 23 \<Longrightarrow>
     \<bar>min 255 (max (b + n) 0) - min 255 (max (b + n') 0)\<bar> \<le> (47::int)"
  by linarith

lemma pixel_value_gap:
  "c < 3 \<Longrightarrow> c' < 3 \<Longrightarrow>
     \<bar>pixel_value w h g (m * 3 + c) - pixel_value w h g (m * 3 + c')\<bar> \<le> 47"
proof -
  assume c: "c < 3" "c' < 3"
  have d: "(m * 3 + c) div 3 = m" "(m * 3 + c') div 3 = m" using c by simp_all
  have n: "- 24 \<le> draw (- 24) 24 (source g (pos g + h * w + (m * 3 + c)))"
          "draw (- 24) 24 (source g (pos g + h * w + (m * 3 + c))) \<le> 23"
          "- 24 \<le> draw (- 24) 24 (source g (pos g + h * w + (m * 3 + c')))"
          "draw (- 24) 24 (source g (pos g + h * w + (m * 3 + c'))) \<le> 23"
    using draw_bounds [of "- 24" 24 "source g (pos g + h * w + (m * 3 + c))"]
          draw_bounds [of "- 24" 24 "source g (pos g + h * w + (m * 3 + c'))"]
    by simp_all
  show ?thesis unfolding pixel_value_def d by (rule same_base_gap [OF n])
qed

text \<open>
  The bound 47 is reached: base 100, channel draws \<open>-24\<close>, 23 and 23.
\<close>

lemma gap_47_attained:
  "img_array 1 1 \<lparr>source = (\<lambda>k. if k = 0 then 100 else if k = 1 then 0 else 47), pos = 0\<rparr>
     = Inr \<lparr>a3_h = 1, a3_w = 1, a3_c = 3, a3_data = [76, 123, 123]\<rparr>"
  by (simp add: img_array_eq pixel_value_def draw_def upt_rec)

text \<open>Both ends of the clip are reached: 255 + 23 becomes 255 and 0 - 24 becomes 0.\<close>

lemma img_array_clips:
  "img_array 1 1 \<lparr>source = (\<lambda>k. if k = 0 then 255 else 47), pos = 0\<rparr>
     = Inr \<lparr>a3_h = 1, a3_w = 1, a3_c = 3, a3_data = [255, 255, 255]\<rparr>"
  "img_array 1 1 \<lparr>source = (\<lambda>k. 0), pos = 0\<rparr>
     = Inr \<lparr>a3_h = 1, a3_w = 1, a3_c = 3, a3_data = [0, 0, 0]\<rparr>"
  by (simp_all add: img_array_eq pixel_value_def draw_def upt_rec)

subsection \<open>The example worlds\<close>

lemma example_world_fields:
  "resolve example_world ''a.png'' = 6" "resolve example_world ''a.jpg'' = 6"
  "save_formats example_world ''PNG''" "can_open example_world ''a.png''"
  "can_print example_world s" "printed example_world = []"
  by (simp_all add: example_world_def)


lemma main_example_ok:
  "fp \<noteq> [] \<Longrightarrow> fst (main [Positional fp] example_entropy example_world) = None"
proof -
  assume n: "fp \<noteq> []"
  have p: "parse_args [Positional fp] = Inr fp" by (simp add: parse_args_def)
  show ?thesis unfolding main_parsed [OF p] using n by (simp add: example_world_def)
qed

section \<open>Properties of the specification\<close>

subsection \<open>C1: the five steps\<close>

text \<open>
  C1. \<open>generate_white_noise(width, height)\<close> follows the five steps of the
  specification. With the random draws as an explicit input, the call always returns an
  image; it is an RGB image of size (width, height) whose buffer has
  \<open>height * width * 3\<close> elements, and the element of row \<open>i\<close>, column \<open>j\<close> and channel
  \<open>c\<close> is the clamped sum of the base field at \<open>(i, j)\<close>, the same for the three
  channels, and the secondary noise at \<open>(i, j, c)\<close>. Step (e): when the arguments
  are parsed, the first line is printed, the format is supported and the path can be
  opened, \<open>main\<close> writes the encoding of the generated image as a PNG to the file the
  output path names, and returns normally when its last line can be printed too.
\<close>

theorem generate_white_noise_steps:
  "(\<exists>im. generate_white_noise width height g = Inr im
      \<and> im_mode im = ''RGB'' \<and> im_size im = (width, height)
      \<and> length (im_bytes im) = height * width * 3
      \<and> (\<forall>i<height. \<forall>j<width. \<forall>c<3.
            im_bytes im ! ((i * width + j) * 3 + c) = spec_pixel width height g i j c))
   \<and> (parse_args argv = Inr output \<and> can_print w ''Generating 128x128 white noise image...''
        \<and> save_formats w ''PNG'' \<and> can_open w output \<longrightarrow>
        (\<exists>im. generate_white_noise IMAGE_WIDTH IMAGE_HEIGHT (default_rng entropy) = Inr im
           \<and> files (snd (main argv entropy w)) (resolve w output) = Some (Encoded ''PNG'' im)
           \<and> (can_print w (''Image saved to: '' @ output) \<longrightarrow>
                  fst (main argv entropy w) = None)))"
proof (intro conjI)
  have "\<forall>i<height. \<forall>j<width. \<forall>c<3.
          map (pixel_value width height g) [0..<height * width * 3] ! ((i * width + j) * 3 + c)
            = spec_pixel width height g i j c"
  proof (intro allI impI)
    fix i j c :: nat
    assume b: "i < height" "j < width" "c < 3"
    then have "(i * width + j) * 3 + c < height * width * 3" by (rule flat_index3_less)
    then show "map (pixel_value width height g) [0..<height * width * 3] ! ((i * width + j) * 3 + c)
                 = spec_pixel width height g i j c"
      using b by (simp only: nth_map_upt0 pixel_value_spec)
  qed
  then show "\<exists>im. generate_white_noise width height g = Inr im
      \<and> im_mode im = ''RGB'' \<and> im_size im = (width, height)
      \<and> length (im_bytes im) = height * width * 3
      \<and> (\<forall>i<height. \<forall>j<width. \<forall>c<3.
            im_bytes im ! ((i * width + j) * 3 + c) = spec_pixel width height g i j c)"
    by (simp add: generate_eq)
next
  show "parse_args argv = Inr output \<and> can_print w ''Generating 128x128 white noise image...''
        \<and> save_formats w ''PNG'' \<and> can_open w output \<longrightarrow>
        (\<exists>im. generate_white_noise IMAGE_WIDTH IMAGE_HEIGHT (default_rng entropy) = Inr im
           \<and> files (snd (main argv entropy w)) (resolve w output) = Some (Encoded ''PNG'' im)
           \<and> (can_print w (''Image saved to: '' @ output) \<longrightarrow>
                  fst (main argv entropy w) = None))"
    by (simp add: main_parsed generate_eq)
qed

text \<open>
  An instance: a 2 by 1 image from \<open>example_rng\<close>. The green channel of the first pixel
  is the base draw 250 plus the noise draw \<open>-2\<close>.
\<close>

theorem generate_white_noise_steps_witness:
  "(\<exists>im. generate_white_noise 2 1 example_rng = Inr im \<and> im_size im = (2, 1)
      \<and> length (im_bytes im) = 6
      \<and> im_bytes im ! 1 = spec_pixel 2 1 example_rng 0 0 1)
   \<and> spec_pixel 2 1 example_rng 0 0 1 = 248
   \<and> (\<exists>im. files (snd (main [Positional ''a.png''] example_entropy example_world)) 6
              = Some (Encoded ''PNG'' im))
   \<and> fst (main [Positional ''a.png''] example_entropy example_world) = None"
proof -
  note t = generate_white_noise_steps [of 2 1 example_rng "[Positional ''a.png'']" "''a.png''"
      example_world example_entropy]
  have h: "parse_args [Positional ''a.png''] = Inr ''a.png''"
    by (simp add: parse_args_def)
  from t obtain im where im: "generate_white_noise 2 1 example_rng = Inr im"
    "im_size im = (2, 1)" "length (im_bytes im) = 1 * 2 * 3"
    and px: "\<forall>i<1. \<forall>j<2. \<forall>c<3.
          im_bytes im ! ((i * 2 + j) * 3 + c) = spec_pixel 2 1 example_rng i j c"
    by blast
  from px [rule_format, of 0 0 1] have a: "im_bytes im ! 1 = spec_pixel 2 1 example_rng 0 0 1" by simp
  have b: "spec_pixel 2 1 example_rng 0 0 1 = 248"
    by (simp add: spec_pixel_def spec_clamp_def spec_replicated_def spec_base_field_def
        spec_secondary_noise_def example_rng_def draw_def)
  from t h have c: "(\<exists>im. files (snd (main [Positional ''a.png''] example_entropy example_world)) 6
              = Some (Encoded ''PNG'' im))
     \<and> fst (main [Positional ''a.png''] example_entropy example_world) = None"
    by (auto simp: example_world_fields)
  from im a b c show ?thesis by auto
qed

subsection \<open>C2: shape and range of the pixel buffer\<close>

text \<open>
  C2. For every run the pixel buffer \<open>img_array\<close> of \<open>generate_white_noise\<close> is an
  array of shape (height, width, 3), and every element of it, for every pixel and every
  channel, is an integer from 0 to 255. The image returned holds this buffer.
\<close>

theorem img_array_shape_and_range:
  "\<exists>a. img_array width height g = Inr a
      \<and> a3_h a = height \<and> a3_w a = width \<and> a3_c a = 3
      \<and> length (a3_data a) = height * width * 3
      \<and> (\<forall>v\<in>set (a3_data a). 0 \<le> v \<and> v \<le> 255)
      \<and> generate_white_noise width height g
          = Inr \<lparr>im_mode = ''RGB'', im_size = (width, height), im_bytes = a3_data a\<rparr>"
  by (simp add: img_array_eq generate_eq pixel_value_range)

text \<open>An instance: the buffer of a 1 by 1 image is not empty.\<close>

theorem img_array_shape_and_range_witness:
  "\<exists>a. img_array 1 1 example_rng = Inr a \<and> a3_data a \<noteq> []
      \<and> (\<forall>v\<in>set (a3_data a). 0 \<le> v \<and> v \<le> 255)"
proof -
  from img_array_shape_and_range [of 1 1 example_rng]
  obtain a where a: "img_array 1 1 example_rng = Inr a" "length (a3_data a) = 1 * 1 * 3"
    "\<forall>v\<in>set (a3_data a). 0 \<le> v \<and> v \<le> 255"
    by blast
  from a(2) have "a3_data a \<noteq> []" by auto
  with a show ?thesis by blast
qed

subsection \<open>C3: what a channel value depends on\<close>

text \<open>
  C3 as the specification words it: each channel value of each pixel depends only on a
  draw of its own and on no draw used for another pixel or channel. The two generators below
  differ in one draw only, the base draw of the single pixel (draw 0); the three channel
  draws (draws 1, 2 and 3) are the same. All three channel values of the pixel change
  with that one draw: it is shared by the three channels (line 39 stacks the same base
  field three times).
\<close>

theorem shared_base_draw_counterexample:
  "source rng_base_10 1 = source rng_base_200 1
   \<and> source rng_base_10 2 = source rng_base_200 2
   \<and> source rng_base_10 3 = source rng_base_200 3
   \<and> img_array 1 1 rng_base_10 = Inr \<lparr>a3_h = 1, a3_w = 1, a3_c = 3, a3_data = [10, 10, 10]\<rparr>
   \<and> img_array 1 1 rng_base_200 = Inr \<lparr>a3_h = 1, a3_w = 1, a3_c = 3, a3_data = [200, 200, 200]\<rparr>"
  by (simp add: img_array_eq rng_base_10_def rng_base_200_def pixel_value_def draw_def upt_rec)

text \<open>
  C3, amended. Each channel value of each pixel depends on two draws only: the base draw
  of its pixel, shared by the three channels of that pixel, and the channel draw of its
  own. Two generators that agree on these two draws give the same value there, whatever
  all their other draws are, those of every other pixel and of the other channels'
  noise included.
\<close>

theorem pixel_depends_on_two_draws:
  "i < height \<Longrightarrow> j < width \<Longrightarrow> c < 3 \<Longrightarrow> pos g' = pos g
   \<Longrightarrow> source g' (pos g + (i * width + j)) = source g (pos g + (i * width + j))
   \<Longrightarrow> source g' (pos g + height * width + ((i * width + j) * 3 + c))
        = source g (pos g + height * width + ((i * width + j) * 3 + c))
   \<Longrightarrow> \<exists>a a' x. img_array width height g = Inr a \<and> img_array width height g' = Inr a'
         \<and> a3_at a i j c = Some x \<and> a3_at a' i j c = Some x"
proof -
  assume b: "i < height" "j < width" "c < 3" and p: "pos g' = pos g"
    and s1: "source g' (pos g + (i * width + j)) = source g (pos g + (i * width + j))"
    and s2: "source g' (pos g + height * width + ((i * width + j) * 3 + c))
        = source g (pos g + height * width + ((i * width + j) * 3 + c))"
  have lt: "(i * width + j) * 3 + c < height * width * 3" using b by (rule flat_index3_less)
  have "spec_pixel width height g' i j c = spec_pixel width height g i j c"
    by (simp only: spec_pixel_def spec_replicated_def spec_base_field_def
        spec_secondary_noise_def p s1 s2)
  then have "pixel_value width height g' ((i * width + j) * 3 + c)
           = pixel_value width height g ((i * width + j) * 3 + c)"
    using b by (simp only: pixel_value_spec)
  then show ?thesis using b lt
    by (simp only: img_array_eq a3_at_def array3.simps nth_map_upt0) simp
qed

text \<open>
  An instance: two generators that agree on the base draw of pixel (0, 1) and on the draw
  of its blue channel, and on no other draw that a 2 by 1 image takes.
\<close>

theorem pixel_depends_on_two_draws_witness:
  "\<exists>a a' x. img_array 2 1 example_rng = Inr a \<and> img_array 2 1 example_rng2 = Inr a'
      \<and> a3_at a 0 1 2 = Some x \<and> a3_at a' 0 1 2 = Some x"
  using pixel_depends_on_two_draws [of 0 1 1 2 2 example_rng2 example_rng]
  by (simp add: example_rng_def example_rng2_def)

subsection \<open>C4: the size of the image\<close>

text \<open>
  C4. The size of the image is fixed. Whatever the generator, the call that \<open>main\<close>
  makes returns an image of width 128 and height 128; and for every command line, every
  entropy and every world, a run of \<open>main\<close> that returns normally has written an image of
  width 128 and height 128, with \<open>128 * 128 * 3\<close> bytes, to the file its output path
  names.
\<close>

theorem main_image_size:
  "(\<exists>im. generate_white_noise IMAGE_WIDTH IMAGE_HEIGHT g = Inr im \<and> im_size im = (128, 128))
   \<and> (main argv entropy w = (None, w') \<longrightarrow>
        (\<exists>output fmt im. parse_args argv = Inr output
           \<and> files w' (resolve w output) = Some (Encoded fmt im)
           \<and> im_size im = (128, 128) \<and> length (im_bytes im) = 128 * 128 * 3))"
proof (intro conjI impI)
  show "\<exists>im. generate_white_noise IMAGE_WIDTH IMAGE_HEIGHT g = Inr im \<and> im_size im = (128, 128)"
    by (simp add: generate_eq) (simp add: IMAGE_WIDTH_def IMAGE_HEIGHT_def)
next
  assume m: "main argv entropy w = (None, w')"
  then obtain fp where a: "parse_args argv = Inr fp"
    using main_rejected [of argv _ entropy w] by (cases "parse_args argv") auto
  have "\<exists>fmt im. files w' (resolve w fp) = Some (Encoded fmt im)
        \<and> im_size im = (IMAGE_WIDTH, IMAGE_HEIGHT)
        \<and> length (im_bytes im) = IMAGE_HEIGHT * IMAGE_WIDTH * 3"
    using m unfolding main_parsed [OF a] by (auto split: if_splits)
  then show "\<exists>output fmt im. parse_args argv = Inr output
           \<and> files w' (resolve w output) = Some (Encoded fmt im)
           \<and> im_size im = (128, 128) \<and> length (im_bytes im) = 128 * 128 * 3"
    using a by (simp add: IMAGE_WIDTH_def IMAGE_HEIGHT_def)
qed

text \<open>
  An instance: the run with the single argument \<open>a.png\<close> in \<open>example_world\<close>, where the
  path names file 6.
\<close>

theorem main_image_size_witness:
  "\<exists>fmt im. files (snd (main [Positional ''a.png''] example_entropy example_world)) 6
       = Some (Encoded fmt im) \<and> im_size im = (128, 128)"
proof -
  have "main [Positional ''a.png''] example_entropy example_world
          = (None, snd (main [Positional ''a.png''] example_entropy example_world))"
    using main_example_ok [of "''a.png''"] by (simp add: prod_eq_iff)
  with main_image_size [of example_rng "[Positional ''a.png'']" example_entropy example_world
      "snd (main [Positional ''a.png''] example_entropy example_world)"]
  show ?thesis by (auto simp: parse_args_def example_world_fields)
qed

subsection \<open>C5: the file is a PNG\<close>

text \<open>
  C5. For every command line, every entropy and every world, a run of \<open>main\<close> that returns
  normally has written the generated RGB image to the file its output path names,
  encoded as PNG; the path is any string, so its extension plays no part.
\<close>

theorem main_writes_png:
  "main argv entropy w = (None, w') \<Longrightarrow>
     \<exists>output im. parse_args argv = Inr output
        \<and> generate_white_noise IMAGE_WIDTH IMAGE_HEIGHT (default_rng entropy) = Inr im
        \<and> im_mode im = ''RGB''
        \<and> files w' (resolve w output) = Some (Encoded ''PNG'' im)"
proof -
  assume m: "main argv entropy w = (None, w')"
  then obtain fp where a: "parse_args argv = Inr fp"
    using main_rejected [of argv _ entropy w] by (cases "parse_args argv") auto
  show ?thesis
    using m a unfolding main_parsed [OF a] by (auto simp: generate_eq split: if_splits)
qed

text \<open>An instance: the output path \<open>a.jpg\<close> receives a PNG.\<close>

theorem main_writes_png_witness:
  "\<exists>im. files (snd (main [Positional ''a.jpg''] example_entropy example_world)) 6
       = Some (Encoded ''PNG'' im)"
proof -
  have "main [Positional ''a.jpg''] example_entropy example_world
          = (None, snd (main [Positional ''a.jpg''] example_entropy example_world))"
    using main_example_ok [of "''a.jpg''"] by (simp add: prod_eq_iff)
  from main_writes_png [OF this] show ?thesis
    by (auto simp: parse_args_def example_world_fields)
qed

subsection \<open>C6: one argument, then a linear procedure\<close>



subsection \<open>C7: where a run can fail\<close>




subsection \<open>C8: nothing but the output file changes\<close>



subsection \<open>C9: the channels of a pixel are close\<close>

text \<open>
  C9. For every pixel of the final buffer, any two of its three channel values differ
  by at most 47.
\<close>

theorem channels_differ_by_at_most_47:
  "i < height \<Longrightarrow> j < width \<Longrightarrow> c < 3 \<Longrightarrow> c' < 3 \<Longrightarrow>
     \<exists>a x y. img_array width height g = Inr a
        \<and> a3_at a i j c = Some x \<and> a3_at a i j c' = Some y \<and> \<bar>x - y\<bar> \<le> 47"
proof -
  assume b: "i < height" "j < width" and c: "c < 3" "c' < 3"
  have lt: "(i * width + j) * 3 + c < height * width * 3"
    "(i * width + j) * 3 + c' < height * width * 3"
    using b c by (simp_all only: flat_index3_less)
  show ?thesis
    using b c lt pixel_value_gap [OF c, of width height g "i * width + j"]
    by (simp only: img_array_eq a3_at_def array3.simps nth_map_upt0) simp
qed

text \<open>
  An instance: the red and the blue channel of the pixel of a 1 by 1 image.
\<close>

theorem channels_differ_by_at_most_47_witness:
  "\<exists>a x y. img_array 1 1 example_rng = Inr a
      \<and> a3_at a 0 0 0 = Some x \<and> a3_at a 0 0 2 = Some y \<and> \<bar>x - y\<bar> \<le> 47"
  using channels_differ_by_at_most_47 [of 0 1 0 1 0 2 example_rng] by simp

subsection \<open>C10: the ranges of the two draws\<close>

text \<open>
  C10. Whatever the generator, every value of the base field of line 36 lies in 0..255
  and every value of the channel noise of line 43 in \<open>-24\<close>..23. The ranges are exact for
  the arrays the two lines produce: at every position of the base field, the values that
  the generators can put there are the values 0..255 and no other; at every position and
  channel of the channel noise they are the values \<open>-24\<close>..23 and no other, so \<open>-24\<close> is
  drawn and 24 never is. The value that line 44 clips is the base value of the pixel plus
  this noise value, so a channel goes down by up to 24 and up by at most 23.
\<close>

theorem noise_ranges:
  "(\<exists>b g1 n g2. base_noise width height g = Inr (b, g1)
       \<and> channel_noise width height g1 = Inr (n, g2)
       \<and> length (a2_data b) = height * width
       \<and> length (a3_data n) = height * width * 3
       \<and> (\<forall>v\<in>set (a2_data b). 0 \<le> v \<and> v \<le> 255)
       \<and> (\<forall>v\<in>set (a3_data n). - 24 \<le> v \<and> v \<le> 23)
       \<and> (i < height \<and> j < width \<and> c < 3 \<longrightarrow>
            (\<exists>stacked s bv nv. stack_axis2 [b, b, b] = Inr stacked \<and> add3 stacked n = Inr s
               \<and> a2_at b i j = Some bv \<and> a3_at n i j c = Some nv
               \<and> a3_at s i j c = Some (bv + nv))))
   \<and> (i < height \<and> j < width \<and> c < 3 \<longrightarrow>
        {x. \<exists>g b g1. base_noise width height g = Inr (b, g1) \<and> a2_at b i j = Some x} = {0..255}
        \<and> {x. \<exists>g n g2. channel_noise width height g = Inr (n, g2) \<and> a3_at n i j c = Some x}
            = {- 24..23})"
proof (intro conjI impI)
  have 1: "0 \<le> draw 0 256 r \<and> draw 0 256 r \<le> 255" for r
    using draw_bounds [of 0 256 r] by simp
  have 2: "- 24 \<le> draw (- 24) 24 r \<and> draw (- 24) 24 r \<le> 23" for r
    using draw_bounds [of "- 24" 24 r] by simp
  obtain b g1 where b: "base_noise width height g = Inr (b, g1)"
    by (simp add: base_noise_eq)
  obtain n g2 where n: "channel_noise width height g1 = Inr (n, g2)"
    by (simp add: channel_noise_eq)
  have len: "length (a2_data b) = height * width" "length (a3_data n) = height * width * 3"
    and rng: "\<forall>v\<in>set (a2_data b). 0 \<le> v \<and> v \<le> 255" "\<forall>v\<in>set (a3_data n). - 24 \<le> v \<and> v \<le> 23"
    using b n by (auto simp: base_noise_eq channel_noise_eq 1 2)
  have "i < height \<and> j < width \<and> c < 3 \<longrightarrow>
            (\<exists>stacked s bv nv. stack_axis2 [b, b, b] = Inr stacked \<and> add3 stacked n = Inr s
               \<and> a2_at b i j = Some bv \<and> a3_at n i j c = Some nv
               \<and> a3_at s i j c = Some (bv + nv))"
    using perturbed_at [of i height j width c g b g1 n g2] b n by blast
  with b n len rng
  show "\<exists>b g1 n g2. base_noise width height g = Inr (b, g1)
       \<and> channel_noise width height g1 = Inr (n, g2)
       \<and> length (a2_data b) = height * width
       \<and> length (a3_data n) = height * width * 3
       \<and> (\<forall>v\<in>set (a2_data b). 0 \<le> v \<and> v \<le> 255)
       \<and> (\<forall>v\<in>set (a3_data n). - 24 \<le> v \<and> v \<le> 23)
       \<and> (i < height \<and> j < width \<and> c < 3 \<longrightarrow>
            (\<exists>stacked s bv nv. stack_axis2 [b, b, b] = Inr stacked \<and> add3 stacked n = Inr s
               \<and> a2_at b i j = Some bv \<and> a3_at n i j c = Some nv
               \<and> a3_at s i j c = Some (bv + nv)))"
    by blast
next
  assume r: "i < height \<and> j < width \<and> c < 3"
  show "{x. \<exists>g b g1. base_noise width height g = Inr (b, g1) \<and> a2_at b i j = Some x} = {0..255}"
  proof (intro set_eqI iffI)
    fix x assume "x \<in> {x. \<exists>g b g1. base_noise width height g = Inr (b, g1) \<and> a2_at b i j = Some x}"
    then obtain g b g1 where "base_noise width height g = Inr (b, g1)" "a2_at b i j = Some x"
      by blast
    then have "x = draw 0 256 (source g (pos g + (i * width + j)))"
      using r base_noise_at [of i height j width g b g1] by simp
    then show "x \<in> {0..255}"
      using draw_bounds [of 0 256 "source g (pos g + (i * width + j))"] by simp
  next
    fix x :: int assume x: "x \<in> {0..255}"
    obtain b g1 where b: "base_noise width height (constant_rng (nat x)) = Inr (b, g1)"
      by (simp add: base_noise_eq)
    then have "a2_at b i j = Some (draw 0 256 (nat (x - 0)))"
      using r base_noise_at [of i height j width "constant_rng (nat x)" b g1]
      by (simp add: constant_rng_def)
    then have "a2_at b i j = Some x" using x draw_constant [of 0 x 256] by simp
    with b show "x \<in> {x. \<exists>g b g1. base_noise width height g = Inr (b, g1) \<and> a2_at b i j = Some x}"
      by blast
  qed
next
  assume r: "i < height \<and> j < width \<and> c < 3"
  show "{x. \<exists>g n g2. channel_noise width height g = Inr (n, g2) \<and> a3_at n i j c = Some x}
            = {- 24..23}"
  proof (intro set_eqI iffI)
    fix x
    assume "x \<in> {x. \<exists>g n g2. channel_noise width height g = Inr (n, g2) \<and> a3_at n i j c = Some x}"
    then obtain g n g2 where "channel_noise width height g = Inr (n, g2)" "a3_at n i j c = Some x"
      by blast
    then have "x = draw (- 24) 24 (source g (pos g + ((i * width + j) * 3 + c)))"
      using r channel_noise_at [of i height j width c g n g2] by simp
    then show "x \<in> {- 24..23}"
      using draw_bounds [of "- 24" 24 "source g (pos g + ((i * width + j) * 3 + c))"] by simp
  next
    fix x :: int assume x: "x \<in> {- 24..23}"
    obtain n g2 where n: "channel_noise width height (constant_rng (nat (x + 24))) = Inr (n, g2)"
      by (simp add: channel_noise_eq)
    then have "a3_at n i j c = Some (draw (- 24) 24 (nat (x - (- 24))))"
      using r channel_noise_at [of i height j width c "constant_rng (nat (x + 24))" n g2]
      by (simp add: constant_rng_def)
    then have "a3_at n i j c = Some x" using x draw_constant [of "- 24" x 24] by simp
    with n show "x \<in> {x. \<exists>g n g2. channel_noise width height g = Inr (n, g2)
                            \<and> a3_at n i j c = Some x}"
      by blast
  qed
qed

text \<open>
  An instance: the green channel of the pixel of a 1 by 1 image. Its noise can be
  \<open>-24\<close> and 23 and cannot be 24; its base value can be 0 and 255 and cannot be 256.
\<close>

theorem noise_ranges_witness:
  "(\<exists>g n g2. channel_noise 1 1 g = Inr (n, g2) \<and> a3_at n 0 0 1 = Some (- 24))
   \<and> (\<exists>g n g2. channel_noise 1 1 g = Inr (n, g2) \<and> a3_at n 0 0 1 = Some 23)
   \<and> \<not> (\<exists>g n g2. channel_noise 1 1 g = Inr (n, g2) \<and> a3_at n 0 0 1 = Some 24)
   \<and> (\<exists>g b g1. base_noise 1 1 g = Inr (b, g1) \<and> a2_at b 0 0 = Some 0)
   \<and> (\<exists>g b g1. base_noise 1 1 g = Inr (b, g1) \<and> a2_at b 0 0 = Some 255)
   \<and> \<not> (\<exists>g b g1. base_noise 1 1 g = Inr (b, g1) \<and> a2_at b 0 0 = Some 256)"
proof -
  have "(0::nat) < 1 \<and> (0::nat) < 1 \<and> (1::nat) < 3" by simp
  with noise_ranges [of 1 1 example_rng 0 0 1]
  have b: "{x. \<exists>g b g1. base_noise 1 1 g = Inr (b, g1) \<and> a2_at b 0 0 = Some x} = {0..255}"
    and n: "{x. \<exists>g n g2. channel_noise 1 1 g = Inr (n, g2) \<and> a3_at n 0 0 1 = Some x} = {- 24..23}"
    by blast+
  have "(- 24::int) \<in> {- 24..23}" "(23::int) \<in> {- 24..23}" "(24::int) \<notin> {- 24..23}"
    "(0::int) \<in> {0..255}" "(255::int) \<in> {0..255}" "(256::int) \<notin> {0..255}"
    by simp_all
  then show ?thesis unfolding b [symmetric] n [symmetric] by blast
qed

end
